theory Spec2Isabelle
  imports Main
begin

chapter \<open>SeisFlows: solver checks and the command-line lifecycle\<close>

text \<open>
  The development embeds two source files of the repository:
  \<^item> \<^verbatim>\<open>seisflows/solver/specfem3d.py\<close>: the methods \<^verbatim>\<open>check\<close> and
    \<^verbatim>\<open>eval_func\<close> of the class \<^verbatim>\<open>Specfem3D\<close>;
  \<^item> \<^verbatim>\<open>seisflows3/seisflows.py\<close>: the commands \<^verbatim>\<open>setup\<close>, \<^verbatim>\<open>configure\<close>,
    \<^verbatim>\<open>submit\<close>, \<^verbatim>\<open>clean\<close>, \<^verbatim>\<open>restart\<close>, \<^verbatim>\<open>par\<close> and the private
    \<^verbatim>\<open>_register\<close> of the class \<^verbatim>\<open>SeisFlows\<close>.
  Definitions come first, the theorems about them follow.
\<close>

section \<open>Python values\<close>

text \<open>
  The values a parameter can hold once the parameter file is loaded. A Python
  dictionary with string keys is an association list, read with \<open>map_of\<close>: a key
  bound to \<^verbatim>\<open>None\<close> is in the dictionary (\<open>Some PNone\<close>), a key that is absent is
  \<open>None\<close>.
\<close>

datatype pyval =
    PNone
  | PBool bool
  | PInt int
  | PStr string
  | PList "pyval list"
  | PDict "(string \<times> pyval) list"

type_synonym pydict = "(string \<times> pyval) list"

text \<open>
  The exceptions the embedded code raises or meets. All are of class
  \<^verbatim>\<open>Exception\<close> but \<^verbatim>\<open>KeyboardInterrupt\<close>, which Python raises in the running
  statement when the operator interrupts the process and which is a
  \<^verbatim>\<open>BaseException\<close> only: a handler \<^verbatim>\<open>except Exception\<close> does not catch it.
\<close>

datatype py_exception =
    NameError string
  | AttributeError string
  | KeyError string
  | TypeError
  | ValueError
  | AssertionError
  | EOFError
  | OSError
  | OtherError string
  | KeyboardInterrupt

definition is_Exception :: "py_exception \<Rightarrow> bool" where
  "is_Exception e = (e \<noteq> KeyboardInterrupt)"

section \<open>The solver: \<^verbatim>\<open>Specfem3D.check\<close> and \<^verbatim>\<open>Specfem3D.eval_func\<close>\<close>

subsection \<open>check\<close>

text \<open>
  \<^verbatim>\<open>check\<close> first runs the check of the base class, which is not part of the
  embedded sources and is a parameter here: it either raises or returns, possibly
  after filling defaults into \<^verbatim>\<open>PAR\<close>. Then four keys are tested in a fixed order,
  each test raising at once, and last the value of \<^verbatim>\<open>FORMAT\<close>.
\<close>

datatype check_error =
    BaseCheckFailed string
  | NotSpecified string
  | FormatNotAcceptable "string list"

definition acceptable_formats :: "string list" where
  "acceptable_formats = [''su'', ''SU'']"

definition format_acceptable :: "pyval option \<Rightarrow> bool" where
  "format_acceptable v =
     (case v of Some (PStr s) \<Rightarrow> s \<in> set acceptable_formats | _ \<Rightarrow> False)"

definition check :: "(pydict \<Rightarrow> check_error + pydict) \<Rightarrow> pydict \<Rightarrow> check_error + pydict" where
  "check base_check PAR =
     (case base_check PAR of
        Inl e \<Rightarrow> Inl e
      | Inr P \<Rightarrow>
          if map_of P ''NT'' = None then Inl (NotSpecified ''NT'')
          else if map_of P ''DT'' = None then Inl (NotSpecified ''DT'')
          else if map_of P ''F0'' = None then Inl (NotSpecified ''F0'')
          else if map_of P ''FORMAT'' = None then Inl (NotSpecified ''FORMAT'')
          else if \<not> format_acceptable (map_of P ''FORMAT'')
            then Inl (FormatNotAcceptable acceptable_formats)
          else Inr P)"

text \<open>The keys \<^verbatim>\<open>check\<close> asks for, in the order of its tests, and those of them a
  dictionary lacks.\<close>

definition checked_keys :: "string list" where
  "checked_keys = [''NT'', ''DT'', ''F0'', ''FORMAT'']"

definition missing_keys :: "pydict \<Rightarrow> string list" where
  "missing_keys P = filter (\<lambda>k. map_of P k = None) checked_keys"

text \<open>The keys an error message of \<^verbatim>\<open>check\<close> names.\<close>

fun reported_keys :: "check_error + pydict \<Rightarrow> string list" where
  "reported_keys (Inl (NotSpecified k)) = [k]"
| "reported_keys (Inl (FormatNotAcceptable _)) = [''FORMAT'']"
| "reported_keys (Inl (BaseCheckFailed _)) = []"
| "reported_keys (Inr _) = []"

subsection \<open>eval\_func\<close>

text \<open>
  The names bound at the top level of \<^verbatim>\<open>specfem3d.py\<close>: its imports, its four
  module variables and the class it defines. The body of \<^verbatim>\<open>eval_func\<close> starts
  with \<^verbatim>\<open>super(Specfem3d, self)\<close>; \<^verbatim>\<open>Specfem3d\<close> is neither a local nor a builtin,
  so Python looks it up among these names and raises \<^verbatim>\<open>NameError\<close> when it is
  not there. The base class's \<^verbatim>\<open>eval_func\<close> and \<^verbatim>\<open>rename_data\<close> act on the
  solver's files; both are parameters, over any state \<open>'s\<close>.
\<close>

definition module_globals :: "string list" where
  "module_globals =
     [''os'', ''glob'', ''sys'', ''warnings'', ''solvertools'', ''unix'', ''exists'',
      ''custom_import'', ''call_solver'', ''getpar'', ''setpar'',
      ''PAR'', ''PATH'', ''system'', ''preprocess'', ''Specfem3D'']"

definition lookup_global :: "string \<Rightarrow> py_exception + string" where
  "lookup_global name =
     (if name \<in> set module_globals then Inr name else Inl (NameError name))"

definition eval_func ::
  "('a \<Rightarrow> 's \<Rightarrow> py_exception + 's) \<Rightarrow> ('s \<Rightarrow> py_exception + 's) \<Rightarrow> 'a \<Rightarrow> 's \<Rightarrow> py_exception + 's" where
  "eval_func base_eval_func rename_data args s =
     (case lookup_global ''Specfem3d'' of
        Inl e \<Rightarrow> Inl e
      | Inr _ \<Rightarrow>
          (case base_eval_func args s of
             Inl e \<Rightarrow> Inl e
           | Inr s' \<Rightarrow> rename_data s'))"

section \<open>The command-line tool: strings, files, input and output\<close>

subsection \<open>String methods\<close>

text \<open>
  A Python \<^verbatim>\<open>str\<close> is a \<open>string\<close>. \<open>startswith s p\<close> is \<^verbatim>\<open>s.startswith(p)\<close>,
  \<open>endswith s p\<close> is \<^verbatim>\<open>s.endswith(p)\<close> and \<open>contains s p\<close> is \<^verbatim>\<open>p in s\<close>. Case and
  white space are those of ASCII.
\<close>

fun startswith :: "string \<Rightarrow> string \<Rightarrow> bool" where
  "startswith s [] = True"
| "startswith [] (p # ps) = False"
| "startswith (c # cs) (p # ps) = (c = p \<and> startswith cs ps)"

definition endswith :: "string \<Rightarrow> string \<Rightarrow> bool" where
  "endswith s p = startswith (rev s) (rev p)"

fun contains :: "string \<Rightarrow> string \<Rightarrow> bool" where
  "contains [] p = (p = [])"
| "contains (c # cs) p = (startswith (c # cs) p \<or> contains cs p)"

definition upper_char :: "char \<Rightarrow> char" where
  "upper_char c =
     (case map_of (zip ''abcdefghijklmnopqrstuvwxyz'' ''ABCDEFGHIJKLMNOPQRSTUVWXYZ'') c of
        Some u \<Rightarrow> u
      | None \<Rightarrow> c)"

definition upper :: "string \<Rightarrow> string" where
  "upper s = map upper_char s"

definition newline :: char where
  "newline = CHR 0x0A"

definition whitespace :: "char list" where
  "whitespace =
     [CHR 0x09, CHR 0x0A, CHR 0x0B, CHR 0x0C, CHR 0x0D,
      CHR 0x1C, CHR 0x1D, CHR 0x1E, CHR 0x1F, CHR '' '']"

definition is_space :: "char \<Rightarrow> bool" where
  "is_space c = (c \<in> set whitespace)"

definition lstrip :: "string \<Rightarrow> string" where
  "lstrip s = dropWhile is_space s"

definition rstrip :: "string \<Rightarrow> string" where
  "rstrip s = rev (dropWhile is_space (rev s))"

definition strip :: "string \<Rightarrow> string" where
  "strip s = rstrip (lstrip s)"

text \<open>\<^verbatim>\<open>s.split(c)\<close> for a one-character separator: the pieces between the
  separators, so one piece more than there are separators.\<close>

primrec split_on :: "char \<Rightarrow> string \<Rightarrow> string list" where
  "split_on c [] = [[]]"
| "split_on c (x # xs) =
     (if x = c then [] # split_on c xs
      else (case split_on c xs of
              [] \<Rightarrow> [[x]]
            | p # ps \<Rightarrow> (x # p) # ps))"

text \<open>\<^verbatim>\<open>f.readlines()\<close>: the text cut after every newline, each line keeping its
  newline; \<^verbatim>\<open>f.writelines(lines)\<close> writes \<open>concat lines\<close>.\<close>

primrec readlines :: "string \<Rightarrow> string list" where
  "readlines [] = []"
| "readlines (c # cs) =
     (if c = newline then [c] # readlines cs
      else (case readlines cs of
              [] \<Rightarrow> [[c]]
            | l # ls \<Rightarrow> (c # l) # ls))"

text \<open>The attribute lookups of the source on a \<^verbatim>\<open>str\<close> that yield a method from a
  string to a truth value: \<^verbatim>\<open>str\<close> has \<^verbatim>\<open>endswith\<close> and \<^verbatim>\<open>startswith\<close>, and
  any other name raises \<^verbatim>\<open>AttributeError\<close>.\<close>

definition str_method :: "string \<Rightarrow> py_exception + (string \<Rightarrow> string \<Rightarrow> bool)" where
  "str_method name =
     (if name = ''endswith'' then Inr endswith
      else if name = ''startswith'' then Inr startswith
      else Inl (AttributeError name))"

text \<open>Truth value of a Python value, as \<^verbatim>\<open>if\<close> and \<^verbatim>\<open>and\<close> take it.\<close>

fun truthy :: "pyval \<Rightarrow> bool" where
  "truthy PNone = False"
| "truthy (PBool b) = b"
| "truthy (PInt n) = (n \<noteq> 0)"
| "truthy (PStr s) = (s \<noteq> [])"
| "truthy (PList xs) = (xs \<noteq> [])"
| "truthy (PDict d) = (d \<noteq> [])"

subsection \<open>The working directory, the terminal and the outcome of a command\<close>

text \<open>
  The commands run inside the working directory, as the default
  \<^verbatim>\<open>--workdir\<close> (\<^verbatim>\<open>os.getcwd()\<close>) has it, and the parameter file is named by a plain
  file name. The directory is the list of its entries in the order a directory scan
  gives them: a file with its text, a directory (with all that is below it) or a
  symbolic link. \<open>disk\<close> lists the paths that exist outside the working directory,
  where the required paths of a run point. \<open>stdin\<close> holds the lines the operator will
  type, \<open>stdout\<close> what was printed, \<open>log_files\<close> the files the logging handlers write
  to.
\<close>

datatype node = File string | Dir | Link string

type_synonym listing = "(string \<times> node) list"

datatype printed =
    Text string
  | ParValue string pyval
  | ParNotFound string

record world =
  entries :: listing
  disk :: "string list"
  stdin :: "string list"
  stdout :: "printed list"
  log_files :: "string list"

text \<open>
  A command ends by returning, by \<^verbatim>\<open>sys.exit\<close> or by an exception that nothing
  catches; in the last two cases the statements after it do not run, and what was
  written to the directory before stays written.
\<close>

datatype abort = Exit string | Raised py_exception

type_synonym 'a result = "abort + 'a"

definition and_then ::
  "'a result \<times> world \<Rightarrow> ('a \<Rightarrow> world \<Rightarrow> 'b result \<times> world) \<Rightarrow> 'b result \<times> world" where
  "and_then m f = (case m of (Inl e, w) \<Rightarrow> (Inl e, w) | (Inr x, w) \<Rightarrow> f x w)"

definition print_out :: "printed list \<Rightarrow> world \<Rightarrow> world" where
  "print_out ms w = w\<lparr>stdout := stdout w @ ms\<rparr>"

text \<open>\<^verbatim>\<open>input(prompt)\<close> prints the prompt and reads one line; at the end of the
  input it raises \<^verbatim>\<open>EOFError\<close>.\<close>

definition input_line :: "string \<Rightarrow> world \<Rightarrow> string result \<times> world" where
  "input_line prompt w =
     (case stdin w of
        [] \<Rightarrow> (Inl (Raised EOFError), print_out [Text prompt] w)
      | a # rest \<Rightarrow> (Inr a, (print_out [Text prompt] w)\<lparr>stdin := rest\<rparr>))"

text \<open>
  A symbolic link holds the name of another entry of the working directory. Opening
  a name follows the links, at most 40 of them as the kernel does, and acts on the
  entry they end at: \<open>realname\<close> is the name of that entry. It is the link itself
  when more links would have to be followed, and a name with no entry when the
  chain dangles; reading fails in both cases.
\<close>

fun follow_links :: "nat \<Rightarrow> listing \<Rightarrow> string \<Rightarrow> string" where
  "follow_links 0 es n = n"
| "follow_links (Suc k) es n =
     (case map_of es n of
        Some (Link target) \<Rightarrow> follow_links k es target
      | _ \<Rightarrow> n)"

definition realname :: "listing \<Rightarrow> string \<Rightarrow> string" where
  "realname es n = follow_links 40 es n"

text \<open>\<^verbatim>\<open>os.path.exists\<close>, \<^verbatim>\<open>os.path.islink\<close> and \<^verbatim>\<open>open(name).read()\<close> on an
  entry of the working directory. \<open>exists\<close> and \<open>islink\<close> look at the entry of
  the name itself: a link exists, wherever it points.\<close>

definition exists :: "listing \<Rightarrow> string \<Rightarrow> bool" where
  "exists es n = (n \<in> set (map fst es))"

definition islink :: "listing \<Rightarrow> string \<Rightarrow> bool" where
  "islink es n = (case map_of es n of Some (Link _) \<Rightarrow> True | _ \<Rightarrow> False)"

definition read_file :: "listing \<Rightarrow> string \<Rightarrow> py_exception + string" where
  "read_file es n =
     (case map_of es (realname es n) of Some (File text) \<Rightarrow> Inr text | _ \<Rightarrow> Inl OSError)"

text \<open>\<open>put n v es\<close> gives the name \<open>n\<close> the entry \<open>v\<close>, in the place of the
  entry it had or as a new last entry.\<close>

definition put :: "string \<Rightarrow> node \<Rightarrow> listing \<Rightarrow> listing" where
  "put n v es =
     (if exists es n then map (\<lambda>e. if fst e = n then (n, v) else e) es
      else es @ [(n, v)])"

text \<open>
  Modelled from the spec: \<^verbatim>\<open>seisflows3.tools.unix\<close> is not among the sources. Its
  \<^verbatim>\<open>rm\<close> deletes the named entry, whatever it is and with all below it (of a
  symbolic link the link, not what it points to), and does nothing when there is none
  (\<^verbatim>\<open>clean\<close> is to ``delete checkpoint, logs, and derived artifacts''); its
  \<^verbatim>\<open>cp\<close> gives the target the source's content, both opened as files are.
\<close>

definition unix_rm :: "string \<Rightarrow> listing \<Rightarrow> listing" where
  "unix_rm n es = filter (\<lambda>e. fst e \<noteq> n) es"

definition unix_cp :: "string \<Rightarrow> string \<Rightarrow> listing \<Rightarrow> listing" where
  "unix_cp src dst es =
     (case map_of es (realname es src) of
        Some (File text) \<Rightarrow> put (realname es dst) (File text) es
      | Some Dir \<Rightarrow> put dst Dir es
      | _ \<Rightarrow> es)"

text \<open>The arguments every command gets from the parser.\<close>

record args =
  workdir :: string
  parameter_file :: string
  path_file :: string
  relative_paths :: bool

text \<open>\<^verbatim>\<open>self._args.name\<close>: the parser defines \<^verbatim>\<open>workdir\<close>, \<^verbatim>\<open>parameter_file\<close>
  and \<^verbatim>\<open>path_file\<close>; any other of the names the source reads as a path raises
  \<^verbatim>\<open>AttributeError\<close>.\<close>

definition args_attr :: "args \<Rightarrow> string \<Rightarrow> py_exception + string" where
  "args_attr a name =
     (if name = ''workdir'' then Inr (workdir a)
      else if name = ''parameter_file'' then Inr (parameter_file a)
      else if name = ''path_file'' then Inr (path_file a)
      else Inl (AttributeError name))"

text \<open>
  What the commands use of the rest of the package, which is not among the sources:
  the loaders of \<^verbatim>\<open>seisflows3.tools.tools\<close>, \<^verbatim>\<open>format_paths\<close> and the template of
  \<^verbatim>\<open>seisflows3.config\<close>, the message of \<^verbatim>\<open>seisflows3.tools.msg\<close>, and the modules
  whose requirements \<^verbatim>\<open>configure\<close> writes out. They are parameters of the model.
  After \<^verbatim>\<open>format_paths\<close> a path is \<^verbatim>\<open>None\<close> or an absolute path name.
\<close>

type_synonym pathdict = "(string \<times> string option) list"

datatype write_event = Write string | Raise py_exception

record env =
  loadyaml :: "string \<Rightarrow> py_exception + pydict"
  loadpy :: "string \<Rightarrow> py_exception + pydict"
  format_paths :: "pydict \<Rightarrow> py_exception + pathdict"
  template_text :: string
  ParameterCheckStatement :: string
  import_modules :: "pydict \<Rightarrow> pathdict \<Rightarrow> abort option"
  render :: "pydict \<Rightarrow> pathdict \<Rightarrow> bool \<Rightarrow> write_event list"

section \<open>The commands of \<^verbatim>\<open>seisflows\<close>\<close>

subsection \<open>\_register\<close>

text \<open>
  The parameter file is loaded by its name: a name ending in \<^verbatim>\<open>.yaml\<close> goes to
  \<^verbatim>\<open>loadyaml\<close>, and the \<^verbatim>\<open>PATHS\<close> entry is taken out of the parameters (no such
  entry: no paths). The \<^verbatim>\<open>elif\<close> of the legacy branch calls the method
  \<^verbatim>\<open>endwith\<close> of the file name, and inside the branch the source reads
  \<^verbatim>\<open>self._args.paths_file\<close>. The deprecation warning of that branch prints
  nothing that a claim speaks about and is left out.
\<close>

definition load_parameters :: "env \<Rightarrow> args \<Rightarrow> world \<Rightarrow> (pydict \<times> pyval) result" where
  "load_parameters env a w =
     (if endswith (parameter_file a) ''.yaml'' then
        (case read_file (entries w) (parameter_file a) of
           Inl e \<Rightarrow> Inl (Raised e)
         | Inr text \<Rightarrow>
             (case loadyaml env text of
                Inl e \<Rightarrow> Inl (Raised e)
              | Inr parameters \<Rightarrow>
                  (case map_of parameters ''PATHS'' of
                     Some paths \<Rightarrow> Inr (filter (\<lambda>e. fst e \<noteq> ''PATHS'') parameters, paths)
                   | None \<Rightarrow> Inr (parameters, PDict []))))
      else
        (case str_method ''endwith'' of
           Inl e \<Rightarrow> Inl (Raised e)
         | Inr endwith \<Rightarrow>
             if endwith (parameter_file a) ''.py'' then
               (case args_attr a ''paths_file'' of
                  Inl e \<Rightarrow> Inl (Raised e)
                | Inr paths_file \<Rightarrow>
                    if \<not> exists (entries w) paths_file
                    then Inl (Exit ''Legacy parameter file requires corresponding path file'')
                    else
                      (case read_file (entries w) (parameter_file a) of
                         Inl e \<Rightarrow> Inl (Raised e)
                       | Inr text \<Rightarrow>
                           (case loadpy env text of
                              Inl e \<Rightarrow> Inl (Raised e)
                            | Inr parameters \<Rightarrow>
                                (case read_file (entries w) (path_file a) of
                                   Inl e \<Rightarrow> Inl (Raised e)
                                 | Inr ptext \<Rightarrow>
                                     (case loadpy env ptext of
                                        Inl e \<Rightarrow> Inl (Raised e)
                                      | Inr paths \<Rightarrow> Inr (parameters, PDict paths))))))
             else Inl (Raised TypeError)))"

text \<open>
  The dialogue before \<^verbatim>\<open>submit\<close> and \<^verbatim>\<open>resume\<close>: unless forced, the parameters
  named by \<^verbatim>\<open>PRECHECK\<close> are printed and the operator is asked to continue.
  \<^verbatim>\<open>parameters["PRECHECK"]\<close> raises \<^verbatim>\<open>KeyError\<close> when there is no such entry.
\<close>

fun iter_items :: "pyval \<Rightarrow> py_exception + pyval list" where
  "iter_items (PList xs) = Inr xs"
| "iter_items (PStr s) = Inr (map (\<lambda>c. PStr [c]) s)"
| "iter_items (PDict d) = Inr (map (\<lambda>e. PStr (fst e)) d)"
| "iter_items _ = Inl TypeError"

fun print_prechecks :: "pydict \<Rightarrow> pyval list \<Rightarrow> world \<Rightarrow> unit result \<times> world" where
  "print_prechecks parameters [] w = (Inr (), w)"
| "print_prechecks parameters (PStr s # items) w =
     print_prechecks parameters items
       (print_out
          [case map_of parameters (upper s) of
             Some v \<Rightarrow> ParValue (upper s) v
           | None \<Rightarrow> ParNotFound (upper s)] w)"
| "print_prechecks parameters (_ # items) w = (Inl (Raised (AttributeError ''upper'')), w)"

definition precheck :: "env \<Rightarrow> bool \<Rightarrow> pydict \<Rightarrow> world \<Rightarrow> unit result \<times> world" where
  "precheck env force parameters w =
     (if force then (Inr (), w)
      else
        (case map_of parameters ''PRECHECK'' of
           None \<Rightarrow> (Inl (Raised (KeyError ''PRECHECK'')), w)
         | Some v \<Rightarrow>
             if \<not> truthy v then (Inr (), w)
             else
               (case iter_items v of
                  Inl e \<Rightarrow> (Inl (Raised e), print_out [Text (ParameterCheckStatement env)] w)
                | Inr items \<Rightarrow>
                    and_then
                      (print_prechecks parameters items
                         (print_out [Text (ParameterCheckStatement env)] w))
                      (\<lambda>_ w1.
                         and_then (input_line ''Continue? (y/[n]): '' (print_out [Text [newline]] w1))
                           (\<lambda>check w2.
                              if check \<noteq> ''y'' then (Inl (Exit ''-1''), w2)
                              else (Inr (), w2))))))"

text \<open>
  \<^verbatim>\<open>_register\<close> itself: the file must exist; the working directory is added to
  the paths when they have no \<^verbatim>\<open>WORKDIR\<close>; then the dialogue, then
  \<^verbatim>\<open>format_paths\<close>. Its value is the pair the source stores as
  \<^verbatim>\<open>self._parameters\<close> and \<^verbatim>\<open>self._paths\<close>. A \<^verbatim>\<open>PATHS\<close> entry that is not a
  dictionary cannot take the \<^verbatim>\<open>WORKDIR\<close> item and is a \<^verbatim>\<open>TypeError\<close> here.
\<close>

definition register :: "env \<Rightarrow> args \<Rightarrow> bool \<Rightarrow> world \<Rightarrow> (pydict \<times> pathdict) result \<times> world" where
  "register env a force w =
     (if \<not> exists (entries w) (parameter_file a)
      then (Inl (Exit ''SeisFlows parameter file not found''), w)
      else
        (case load_parameters env a w of
           Inl e \<Rightarrow> (Inl e, w)
         | Inr (parameters, PDict paths) \<Rightarrow>
             and_then
               (precheck env force parameters w)
               (\<lambda>_ w1.
                  (case format_paths env
                          (if map_of paths ''WORKDIR'' = None
                           then paths @ [(''WORKDIR'', PStr (workdir a))]
                           else paths) of
                     Inl e \<Rightarrow> (Inl (Raised e), w1)
                   | Inr PATH \<Rightarrow> (Inr (parameters, PATH), w1)))
         | Inr (parameters, _) \<Rightarrow> (Inl (Raised TypeError), w)))"

subsection \<open>\_config\_logging\<close>

text \<open>
  The log file is \<^verbatim>\<open>PATH.LOG\<close> when \<^verbatim>\<open>PAR.LOG_LEVEL\<close>, \<^verbatim>\<open>PAR.VERBOSE\<close> and
  \<^verbatim>\<open>PATH.LOG\<close> can all be read, in this order, and \<^verbatim>\<open>./output_log.txt\<close> as soon
  as one of them raises \<^verbatim>\<open>KeyError\<close>; a file handler cannot be made for \<^verbatim>\<open>None\<close>.
  Level and format of the messages are not modelled.
\<close>

definition config_logging :: "pydict \<Rightarrow> pathdict \<Rightarrow> world \<Rightarrow> unit result \<times> world" where
  "config_logging PAR PATH w =
     (case (if map_of PAR ''LOG_LEVEL'' = None then Some ''./output_log.txt''
            else if map_of PAR ''VERBOSE'' = None then Some ''./output_log.txt''
            else (case map_of PATH ''LOG'' of
                    None \<Rightarrow> Some ''./output_log.txt''
                  | Some filename \<Rightarrow> filename)) of
        None \<Rightarrow> (Inl (Raised TypeError), w)
      | Some filename \<Rightarrow> (Inr (), w\<lparr>log_files := log_files w @ [filename]\<rparr>))"

subsection \<open>par\<close>

text \<open>
  \<^verbatim>\<open>par\<close> looks for the first line of the parameter file whose stripped text
  starts with the upper-case parameter and a colon and that is not a comment. With a
  value it splits this line at its colons into exactly two pieces (more or fewer
  raise \<^verbatim>\<open>ValueError\<close>), keeps the first and writes the value after it; since
  \<^verbatim>\<open>s.replace(s, value)\<close> is \<^verbatim>\<open>value\<close>, the new value is the given one. The
  file is written where it was read, at the end of its links. The parameter is
  always given here, and the warning for the value \<^verbatim>\<open>none\<close> changes nothing and is
  left out.
\<close>

definition par_match :: "string \<Rightarrow> string \<Rightarrow> bool" where
  "par_match parameter line =
     (contains (take (length parameter + 1) (strip line)) (parameter @ '':'')
      \<and> (case line of [] \<Rightarrow> False | c # _ \<Rightarrow> c \<noteq> CHR ''#''))"

fun find_line :: "(string \<Rightarrow> bool) \<Rightarrow> string list \<Rightarrow> nat option" where
  "find_line P [] = None"
| "find_line P (l # ls) = (if P l then Some 0 else map_option Suc (find_line P ls))"

definition par :: "args \<Rightarrow> string \<Rightarrow> string option \<Rightarrow> bool \<Rightarrow> world \<Rightarrow> unit result \<times> world" where
  "par a parameter val skip_print w =
     (if \<not> exists (entries w) (parameter_file a)
      then (Inl (Exit ''parameter file does not exist''), w)
      else
        (case read_file (entries w) (parameter_file a) of
           Inl e \<Rightarrow> (Inl (Raised e), w)
         | Inr text \<Rightarrow>
             (case find_line (par_match (upper parameter)) (readlines text) of
                None \<Rightarrow> (Inl (Exit ''not found in parameter file''), w)
              | Some i \<Rightarrow>
                  (case val of
                     None \<Rightarrow>
                       (Inr (), if skip_print then w else print_out [Text (readlines text ! i)] w)
                   | Some v \<Rightarrow>
                       (case split_on CHR '':'' (readlines text ! i) of
                          [current_par, current_val] \<Rightarrow>
                            (Inr (),
                             (if skip_print then w
                              else print_out
                                     [Text (strip current_par @ '': '' @ strip current_val
                                            @ '' -> '' @ v)] w)
                             \<lparr>entries :=
                                put (realname (entries w) (parameter_file a))
                                  (File (concat ((readlines text)
                                           [i := current_par @ '': '' @ v @ [newline]])))
                                  (entries w)\<rparr>)
                        | _ \<Rightarrow> (Inl (Raised ValueError), w))))))"

subsection \<open>The command \<^verbatim>\<open>setup\<close>\<close>

text \<open>The command is called \<open>setup_workdir\<close> here, its own name being a keyword of
  Isabelle.\<close>

text \<open>
  Modelled from the spec: \<^verbatim>\<open>unix.cp(PAR_FILE, workdir)\<close> is to ``create blank
  configuration document from template'': the template, named
  \<^verbatim>\<open>parameters.yaml\<close>, is copied into the working directory under its own name and
  replaces a file of that name. A directory of that name cannot be written as a file;
  a symbolic link of that name stays, the text going to the entry it ends at.
\<close>

definition cp_template :: "env \<Rightarrow> world \<Rightarrow> unit result \<times> world" where
  "cp_template env w =
     (case map_of (entries w) (realname (entries w) ''parameters.yaml'') of
        Some Dir \<Rightarrow> (Inl (Raised OSError), w)
      | Some (Link _) \<Rightarrow> (Inl (Raised OSError), w)
      | _ \<Rightarrow>
          (Inr (),
           w\<lparr>entries := put (realname (entries w) ''parameters.yaml'')
                          (File (template_text env)) (entries w)\<rparr>))"

definition setup_workdir :: "env \<Rightarrow> args \<Rightarrow> bool \<Rightarrow> bool \<Rightarrow> world \<Rightarrow> unit result \<times> world" where
  "setup_workdir env a symlink overwrite w =
     and_then
       (if exists (entries w) (parameter_file a) then
          and_then
            (if \<not> overwrite
             then input_line ''Overwrite with blank file? (y/[n]): ''
                    (print_out [Text (''Parameter file '' @ parameter_file a @ '' already exists'')] w)
             else (Inr ''y'', w))
            (\<lambda>check w1.
               if check = ''y''
               then (Inr (), w1\<lparr>entries := unix_rm (parameter_file a) (entries w1)\<rparr>)
               else (Inr (), w1))
        else (Inr (), w))
       (\<lambda>_ w2.
          and_then (cp_template env w2)
            (\<lambda>_ w3.
               if symlink \<and> \<not> exists (entries w3) ''source_code''
               then (Inr (), w3\<lparr>entries := put ''source_code'' Dir (entries w3)\<rparr>)
               else (Inr (), w3)))"

subsection \<open>configure\<close>

text \<open>
  The body of the \<^verbatim>\<open>try\<close> opens the parameter file for appending and writes the
  headers and the entries of every module. What it writes comes from the modules'
  requirements, which are not among the sources: \<open>render\<close> gives the writes in
  their order, and an exception raised in between (by a write, or while the text of
  the next one is computed) is an event of the list. The writes before the first
  exception reach the file; nothing after it runs. The file is opened as every
  file is, at the end of its links, and is created when the name has no entry.
\<close>

fun append_writes :: "write_event list \<Rightarrow> string \<Rightarrow> py_exception option \<times> string" where
  "append_writes [] text = (None, text)"
| "append_writes (Write s # evs) text = append_writes evs (text @ s)"
| "append_writes (Raise e # evs) text = (Some e, text)"

text \<open>The exception that ends the body, if there is one: the first of the list.\<close>

fun first_raise :: "write_event list \<Rightarrow> py_exception option" where
  "first_raise [] = None"
| "first_raise (Write s # evs) = first_raise evs"
| "first_raise (Raise e # evs) = Some e"

definition try_body :: "write_event list \<Rightarrow> string \<Rightarrow> listing \<Rightarrow> py_exception option \<times> listing" where
  "try_body evs name es =
     (case map_of es (realname es name) of
        Some (File text) \<Rightarrow>
          (case append_writes evs text of
             (x, text') \<Rightarrow> (x, put (realname es name) (File text') es))
      | None \<Rightarrow>
          (case append_writes evs [] of
             (x, text') \<Rightarrow> (x, put (realname es name) (File text') es))
      | _ \<Rightarrow> (Some OSError, es))"

text \<open>
  \<^verbatim>\<open>configure\<close>: the parameter file is registered and the modules are imported;
  the file is copied to a backup named with a dot before its name; then the body
  runs. The handler is \<^verbatim>\<open>except Exception\<close>: for an exception of that class it
  removes the parameter file, copies the backup to its name and exits; any other
  goes on to end the command, with the file as the writes left it and the backup
  beside it. Without an exception the backup is removed.
\<close>

definition configure :: "env \<Rightarrow> args \<Rightarrow> world \<Rightarrow> unit result \<times> world" where
  "configure env a w =
     and_then (register env a True w)
       (\<lambda>(PAR, PATH) w1.
          if \<not> endswith (parameter_file a) ''.yaml''
          then (Inl (Exit ''seisflows configure only applicable to .yaml parameter files''), w1)
          else
            (case import_modules env PAR PATH of
               Some e \<Rightarrow> (Inl e, w1)
             | None \<Rightarrow>
                 (case try_body (render env PAR PATH (relative_paths a)) (parameter_file a)
                         (unix_cp (parameter_file a) (''.'' @ parameter_file a) (entries w1)) of
                    (Some e, es) \<Rightarrow>
                      if is_Exception e then
                        (Inl (Exit ''seisflows configure failed with exception''),
                         w1\<lparr>entries :=
                              unix_cp (''.'' @ parameter_file a) (parameter_file a)
                                (unix_rm (parameter_file a) es)\<rparr>)
                      else (Inl (Raised e), w1\<lparr>entries := es\<rparr>)
                  | (None, es) \<Rightarrow>
                      (Inr (), w1\<lparr>entries := unix_rm (''.'' @ parameter_file a) es\<rparr>))))"

subsection \<open>submit\<close>

definition REQ_PATHS :: "string list" where
  "REQ_PATHS =
     [''SPECFEM_BIN'', ''SPECFEM_DATA'', ''MODEL_INIT'', ''MODEL_TRUE'',
      ''DATA'', ''LOCAL'', ''MASK'']"

text \<open>The required paths that are given (in the dictionary, not \<^verbatim>\<open>None\<close> and not
  empty) and do not exist, in the order of \<^verbatim>\<open>REQ_PATHS\<close>.\<close>

fun paths_dont_exist :: "pathdict \<Rightarrow> string list \<Rightarrow> string list \<Rightarrow> string list" where
  "paths_dont_exist PATH dk [] = []"
| "paths_dont_exist PATH dk (key # keys) =
     (case map_of PATH key of
        Some (Some p) \<Rightarrow>
          if p \<noteq> [] \<and> p \<notin> set dk then p # paths_dont_exist PATH dk keys
          else paths_dont_exist PATH dk keys
      | _ \<Rightarrow> paths_dont_exist PATH dk keys)"

text \<open>
  The first statements of \<^verbatim>\<open>submit\<close>: \<^verbatim>\<open>RESUME_FROM\<close> is set to the empty value
  in the parameter file, \<^verbatim>\<open>STOP_AFTER\<close> is set when the command gives it, then the
  file is registered and logging configured.
\<close>

definition submit_register ::
  "env \<Rightarrow> args \<Rightarrow> string option \<Rightarrow> bool \<Rightarrow> world \<Rightarrow> (pydict \<times> pathdict) result \<times> world" where
  "submit_register env a stop_after force w =
     and_then (par a ''resume_from'' (Some []) True w)
       (\<lambda>_ w1.
          and_then
            (case stop_after of
               None \<Rightarrow> (Inr (), w1)
             | Some v \<Rightarrow> par a ''STOP_AFTER'' (Some v) True w1)
            (\<lambda>_ w2.
               and_then (register env a force w2)
                 (\<lambda>(PAR, PATH) w3.
                    and_then (config_logging PAR PATH w3)
                      (\<lambda>_ w4. (Inr (PAR, PATH), w4)))))"

text \<open>
  Then the required paths are checked. When one is missing they are all printed and
  the process exits. Otherwise the working directory is made and entered (it is the
  current directory here), the modules are built by \<^verbatim>\<open>init_seisflows\<close> and the
  workflow goes to \<^verbatim>\<open>system.submit\<close>: these are the last statements of the
  command, and its value is the registered parameters and paths the workflow is
  handed off with.
\<close>

definition missing_paths_report :: "string list \<Rightarrow> printed list" where
  "missing_paths_report ps =
     [Text ''The following paths do not exist:''] @ map (\<lambda>p. Text (CHR 0x09 # p)) ps
     @ [Text [newline]]"

definition submit ::
  "env \<Rightarrow> args \<Rightarrow> string option \<Rightarrow> bool \<Rightarrow> world \<Rightarrow> (pydict \<times> pathdict) result \<times> world" where
  "submit env a stop_after force w =
     and_then (submit_register env a stop_after force w)
       (\<lambda>(PAR, PATH) w4.
          if paths_dont_exist PATH (disk w4) REQ_PATHS \<noteq> []
          then (Inl (Exit []),
                print_out (missing_paths_report (paths_dont_exist PATH (disk w4) REQ_PATHS)) w4)
          else (Inr (PAR, PATH), w4))"

subsection \<open>clean\<close>

text \<open>
  \<^verbatim>\<open>glob\<close> of a pattern joined to the working directory gives the entries whose
  names match, in the order of the directory scan; in a pattern a star stands for
  any characters and every other character of the patterns used here for itself.
  The name of the working directory is taken to hold no pattern character. The path
  of a match, which the first assertion looks at, is the working directory joined
  with the name.
\<close>

fun fnmatch :: "string \<Rightarrow> string \<Rightarrow> bool" where
  "fnmatch [] s = (s = [])"
| "fnmatch (p # ps) s =
     (if p = CHR ''*''
      then fnmatch ps s \<or> (case s of [] \<Rightarrow> False | _ # cs \<Rightarrow> fnmatch (p # ps) cs)
      else (case s of [] \<Rightarrow> False | c # cs \<Rightarrow> p = c \<and> fnmatch ps cs))"

definition glob :: "string \<Rightarrow> listing \<Rightarrow> string list" where
  "glob pattern es = filter (fnmatch pattern) (map fst es)"

definition join_path :: "string \<Rightarrow> string \<Rightarrow> string" where
  "join_path d n = (if d = [] \<or> last d = CHR ''/'' then d @ n else d @ ''/'' @ n)"

definition delete :: "string list" where
  "delete = [''logs'', ''output*'', ''stats'', ''scratch'']"

text \<open>The inner loop, over the matches of one pattern: the two assertions, then
  \<^verbatim>\<open>unix.rm\<close>. A failed assertion ends the command; what was removed before stays
  removed.\<close>

fun clean_matches :: "string \<Rightarrow> string list \<Rightarrow> listing \<Rightarrow> unit result \<times> listing" where
  "clean_matches wd [] es = (Inr (), es)"
| "clean_matches wd (n # ns) es =
     (if contains (join_path wd n) ''parameters.yaml'' then (Inl (Raised AssertionError), es)
      else if islink es n then (Inl (Raised AssertionError), es)
      else clean_matches wd ns (unix_rm n es))"

text \<open>The outer loop, over the patterns; each pattern is matched against the
  directory as the patterns before it left it.\<close>

fun clean_patterns :: "string \<Rightarrow> string list \<Rightarrow> listing \<Rightarrow> unit result \<times> listing" where
  "clean_patterns wd [] es = (Inr (), es)"
| "clean_patterns wd (p # ps) es =
     (case clean_matches wd (glob p es) es of
        (Inl e, es') \<Rightarrow> (Inl e, es')
      | (Inr _, es') \<Rightarrow> clean_patterns wd ps es')"

definition clean :: "args \<Rightarrow> bool \<Rightarrow> world \<Rightarrow> unit result \<times> world" where
  "clean a force w =
     and_then
       (if force then (Inr ''y'', w)
        else input_line ''Are you sure you want to clean? (y/[n]):'' w)
       (\<lambda>check w1.
          if check = ''y''
          then (case clean_patterns (workdir a) delete (entries w1) of
                  (r, es) \<Rightarrow> (r, w1\<lparr>entries := es\<rparr>))
          else (Inr (), w1))"

text \<open>The operator confirms the next question: the command is forced, or the next
  line typed is \<^verbatim>\<open>y\<close>.\<close>

definition confirmed :: "bool \<Rightarrow> world \<Rightarrow> bool" where
  "confirmed force w = (force \<or> (case stdin w of [] \<Rightarrow> False | answer # _ \<Rightarrow> answer = ''y''))"

subsection \<open>restart\<close>

definition restart :: "env \<Rightarrow> args \<Rightarrow> bool \<Rightarrow> world \<Rightarrow> (pydict \<times> pathdict) result \<times> world" where
  "restart env a force w =
     (case clean a force w of
        (Inl e, w1) \<Rightarrow> (Inl e, w1)
      | (Inr _, w1) \<Rightarrow> submit env a None force w1)"

text \<open>
  The words of the specification for \<^verbatim>\<open>restart\<close>, ``equivalent to clean then
  submit'', and of the parser's help, ``Akin to running seisflows clean; seisflows
  submit'': two invocations, one after the other. The second starts in the state
  the first left, however the first ended, and its outcome is the outcome of the
  two; it is given the force flag and no other argument.
\<close>

definition clean_then_submit ::
  "env \<Rightarrow> args \<Rightarrow> bool \<Rightarrow> world \<Rightarrow> (pydict \<times> pathdict) result \<times> world" where
  "clean_then_submit env a force w = submit env a None force (snd (clean a force w))"

section \<open>The configuration document and the Stage Driver\<close>

text \<open>
  The text a document gives a key: the text after the colon of the key's line,
  stripped; the line is the one \<^verbatim>\<open>par\<close> finds for the key.
  Modelled from the spec: in the configuration document ``each entry
  \<^verbatim>\<open>KEY: value\<close>; absent value means unset/null''.
\<close>

definition entry_text :: "string \<Rightarrow> string \<Rightarrow> string option" where
  "entry_text key doc =
     (case find_line (par_match key) (readlines doc) of
        None \<Rightarrow> None
      | Some i \<Rightarrow> Some (strip (drop 1 (dropWhile (\<lambda>c. c \<noteq> CHR '':'') (readlines doc ! i)))))"

text \<open>The number of lines of a document that are an entry for a key. The keys of a
  document are to be unique (spec, section 3), so it is 1 for a key the document
  has.\<close>

definition entry_count :: "string \<Rightarrow> string \<Rightarrow> nat" where
  "entry_count key doc = length (filter (par_match key) (readlines doc))"

text \<open>The text a document gives a key when the last of several entries for the key
  counts, as it does for a loader that builds a dictionary entry by entry.\<close>

definition last_entry_text :: "string \<Rightarrow> string \<Rightarrow> string option" where
  "last_entry_text key doc =
     (case find_line (par_match key) (rev (readlines doc)) of
        None \<Rightarrow> None
      | Some i \<Rightarrow>
          Some (strip (drop 1 (dropWhile (\<lambda>c. c \<noteq> CHR '':'') (rev (readlines doc) ! i)))))"

text \<open>
  Modelled from the spec: \<^verbatim>\<open>loadyaml\<close> is not among the sources. This loader reads
  the given keys of a document into a flat mapping, an entry without a value as
  \<^verbatim>\<open>None\<close> and any other as its text.
\<close>

definition flat_loadyaml :: "string list \<Rightarrow> string \<Rightarrow> py_exception + pydict" where
  "flat_loadyaml keys doc =
     Inr (concat (map (\<lambda>k. case entry_text k doc of
                              None \<Rightarrow> []
                            | Some v \<Rightarrow> [(k, if v = [] then PNone else PStr v)]) keys))"



section \<open>Well-formed lines and concrete inputs\<close>


text \<open>The arguments as the parser defaults them, a world with nothing outside the
  working directory and nothing printed yet, and an environment whose loader is the
  flat one and whose modules import.\<close>

definition default_args :: args where
  "default_args =
     \<lparr>workdir = ''/home/run'', parameter_file = ''parameters.yaml'', path_file = ''paths.py'',
      relative_paths = False\<rparr>"

definition world_of :: "listing \<Rightarrow> string list \<Rightarrow> world" where
  "world_of es answers =
     \<lparr>entries = es, disk = [], stdin = answers, stdout = [], log_files = []\<rparr>"

definition flat_env :: "pathdict \<Rightarrow> write_event list \<Rightarrow> env" where
  "flat_env PATH evs =
     \<lparr>loadyaml = flat_loadyaml [''RESUME_FROM'', ''STOP_AFTER''],
      loadpy = (\<lambda>_. Inr []),
      format_paths = (\<lambda>_. Inr PATH),
      template_text = ''# blank'',
      ParameterCheckStatement = ''PARAMETER CHECK'',
      import_modules = (\<lambda>_ _. None),
      render = (\<lambda>_ _ _. evs)\<rparr>"

section \<open>Theorems about the solver\<close>

text \<open>
  C1, as stated: the check reports every missing key in one pass. It does not: with an
  empty parameter dictionary (and a base check that passes) all four keys are missing,
  \<^verbatim>\<open>check\<close> raises for \<^verbatim>\<open>NT\<close> and its message names no other key, so the missing
  \<^verbatim>\<open>DT\<close> goes unreported.
\<close>

theorem check_accumulate_all_counterexample:
  "check Inr [] = Inl (NotSpecified ''NT'')
   \<and> missing_keys [] = [''NT'', ''DT'', ''F0'', ''FORMAT'']
   \<and> ''DT'' \<notin> set (reported_keys (check Inr []))"
  by (simp add: check_def missing_keys_def checked_keys_def)

text \<open>
  C1, amended: \<^verbatim>\<open>Specfem3D.check\<close> is fail-fast. When the base check passes, it
  reports exactly the first key of \<^verbatim>\<open>NT\<close>, \<^verbatim>\<open>DT\<close>, \<^verbatim>\<open>F0\<close>, \<^verbatim>\<open>FORMAT\<close> that is
  missing and nothing else; when none is missing it reports an unacceptable
  \<^verbatim>\<open>FORMAT\<close> value, and otherwise it passes.
\<close>

theorem check_fail_fast:
  assumes "base_check PAR = Inr P"
  shows "check base_check PAR =
           (case missing_keys P of
              k # _ \<Rightarrow> Inl (NotSpecified k)
            | [] \<Rightarrow> (if format_acceptable (map_of P ''FORMAT'') then Inr P
                     else Inl (FormatNotAcceptable acceptable_formats)))"
  using assms by (simp add: check_def missing_keys_def checked_keys_def)

theorem check_fail_fast_witness:
  "check Inr [(''NT'', PInt 100), (''FORMAT'', PStr ''su'')]
     = Inl (NotSpecified ''DT'')
   \<and> missing_keys [(''NT'', PInt 100), (''FORMAT'', PStr ''su'')] = [''DT'', ''F0'']"
  using check_fail_fast [of Inr "[(''NT'', PInt 100), (''FORMAT'', PStr ''su'')]"
                            "[(''NT'', PInt 100), (''FORMAT'', PStr ''su'')]"]
  by (simp add: missing_keys_def checked_keys_def)

text \<open>
  C10: every call of \<^verbatim>\<open>eval_func\<close> raises \<^verbatim>\<open>NameError\<close> for the name
  \<^verbatim>\<open>Specfem3d\<close>, whatever the arguments, the solver state, the base class's
  \<^verbatim>\<open>eval_func\<close> and \<^verbatim>\<open>rename_data\<close> are: neither of the two is reached.
\<close>

theorem eval_func_raises_NameError:
  "eval_func base_eval_func rename_data args s = Inl (NameError ''Specfem3d'')"
  by (simp add: eval_func_def lookup_global_def module_globals_def)

section \<open>Lemmas: strings and lines\<close>

subsection \<open>Strings\<close>















subsection \<open>Lines\<close>




lemma concat_readlines: "concat (readlines s) = s"
  by (induction s) (auto split: list.splits)



lemma find_line_Some:
  "find_line P ls = Some i \<Longrightarrow> i < length ls \<and> P (ls ! i)"
  by (induction ls arbitrary: i) (auto split: if_splits)


section \<open>Lemmas: entries of the working directory\<close>

lemma map_of_replace_other:
  "m \<noteq> n \<Longrightarrow> map_of (map (\<lambda>e. if fst e = n then (n, v) else e) es) m = map_of es m"
  by (induction es) auto

lemma map_of_replace_same:
  "n \<in> fst ` set es \<Longrightarrow> map_of (map (\<lambda>e. if fst e = n then (n, v) else e) es) n = Some v"
  by (induction es) auto

lemma map_of_put:
  "map_of (put n v es) m = (if m = n then Some v else map_of es m)"
proof (cases "exists es n")
  case False
  then have "map_of es n = None" by (simp add: exists_def map_of_eq_None_iff)
  with False show ?thesis by (auto simp: put_def map_add_def split: option.splits)
next
  case True
  then show ?thesis
    by (simp add: put_def exists_def map_of_replace_other map_of_replace_same)
qed

lemma map_of_unix_rm:
  "map_of (unix_rm n es) m = (if m = n then None else map_of es m)"
  by (induction es) (auto simp: unix_rm_def)

text \<open>Links: a name that is not a link is its own real name, and giving a file to a
  name that is not a link changes no real name.\<close>

lemma follow_links_nonlink: "\<not> islink es n \<Longrightarrow> follow_links k es n = n"
  by (cases k) (auto simp: islink_def split: option.splits node.splits)

lemma realname_nonlink: "\<not> islink es n \<Longrightarrow> realname es n = n"
  by (simp add: realname_def follow_links_nonlink)

lemma follow_links_put_file:
  "\<not> islink es t \<Longrightarrow> follow_links k (put t (File d) es) n = follow_links k es n"
proof (induction k arbitrary: n)
  case 0
  then show ?case by simp
next
  case (Suc k)
  show ?case
  proof (cases "n = t")
    case True
    with Suc.prems show ?thesis
      by (auto simp: map_of_put islink_def split: option.splits node.splits)
  next
    case False
    with Suc show ?thesis
      by (auto simp: map_of_put split: option.splits node.splits)
  qed
qed

lemma realname_put_file:
  "\<not> islink es t \<Longrightarrow> realname (put t (File d) es) n = realname es n"
  by (simp add: realname_def follow_links_put_file)

lemma read_file_ends_at:
  "read_file es n = Inr doc \<Longrightarrow> map_of es (realname es n) = Some (File doc)"
  by (auto simp: read_file_def split: option.splits node.splits)





lemma append_writes_first:
  "first_raise evs = Some e \<Longrightarrow> \<exists>doc'. append_writes evs doc = (Some e, doc')"
  by (induction evs doc rule: append_writes.induct) auto


section \<open>Lemmas: what a command leaves alone\<close>

lemma print_prechecks_frame:
  "print_prechecks parameters items w = (r, w') \<Longrightarrow>
     entries w' = entries w \<and> disk w' = disk w \<and> stdin w' = stdin w"
  by (induction parameters items w rule: print_prechecks.induct)
     (auto simp: print_out_def)

lemma input_line_frame:
  "input_line prompt w = (r, w') \<Longrightarrow> entries w' = entries w \<and> disk w' = disk w"
  by (auto simp: input_line_def print_out_def split: list.splits)

lemma precheck_frame:
  assumes "precheck env force parameters w = (r, w')"
  shows "entries w' = entries w \<and> disk w' = disk w"
proof (cases "force \<or> map_of parameters ''PRECHECK'' = None")
  case True
  with assms show ?thesis by (auto simp: precheck_def split: if_splits)
next
  case False
  then obtain v where v: "map_of parameters ''PRECHECK'' = Some v" and nf: "\<not> force" by auto
  show ?thesis
  proof (cases "truthy v")
    case False
    with assms v nf show ?thesis by (simp add: precheck_def)
  next
    case True
    show ?thesis
    proof (cases "iter_items v")
      case (Inl e)
      with assms v nf True show ?thesis by (auto simp: precheck_def print_out_def)
    next
      case (Inr items)
      obtain r1 w1 where p: "print_prechecks parameters items
          (print_out [Text (ParameterCheckStatement env)] w) = (r1, w1)" by force
      from print_prechecks_frame[OF p]
      have f1: "entries w1 = entries w \<and> disk w1 = disk w" by (simp add: print_out_def)
      show ?thesis
      proof (cases r1)
        case (Inl e)
        with assms v nf True Inr p f1 show ?thesis by (simp add: precheck_def and_then_def)
      next
        case r1: (Inr u)
        obtain r2 w2 where i: "input_line ''Continue? (y/[n]): '' (print_out [Text [newline]] w1) = (r2, w2)"
          by force
        from input_line_frame[OF i] f1
        have f2: "entries w2 = entries w \<and> disk w2 = disk w" by (simp add: print_out_def)
        from assms v nf True Inr p r1 i f2 show ?thesis
          by (cases r2) (auto simp: precheck_def and_then_def split: if_splits)
      qed
    qed
  qed
qed

lemma register_frame:
  assumes "register env a force w = (r, w')"
  shows "entries w' = entries w \<and> disk w' = disk w"
proof (cases "exists (entries w) (parameter_file a)")
  case False
  with assms show ?thesis by (simp add: register_def)
next
  case True
  show ?thesis
  proof (cases "load_parameters env a w")
    case (Inl e)
    with assms True show ?thesis by (simp add: register_def)
  next
    case (Inr pp)
    obtain parameters paths where pp: "pp = (parameters, paths)" by force
    show ?thesis
    proof (cases "\<exists>ps. paths = PDict ps")
      case False
      with assms True Inr pp show ?thesis by (cases paths) (auto simp: register_def)
    next
      case ex: True
      then obtain ps where ps: "paths = PDict ps" by blast
      obtain r1 w1 where pc: "precheck env force parameters w = (r1, w1)" by force
      from precheck_frame[OF pc] assms True Inr pp ps pc show ?thesis
        by (cases r1) (auto simp: register_def and_then_def split: sum.splits)
    qed
  qed
qed

lemma register_Inr_reads:
  assumes "register env a force w = (Inr (PAR, PATH), w')"
  shows "endswith (parameter_file a) ''.yaml'' \<and> (\<exists>text. read_file (entries w) (parameter_file a) = Inr text)"
proof -
  from assms have ex: "exists (entries w) (parameter_file a)"
    by (auto simp: register_def split: if_splits)
  with assms obtain pp where lp: "load_parameters env a w = Inr pp"
    by (cases "load_parameters env a w") (auto simp: register_def)
  then show ?thesis
    by (auto simp: load_parameters_def str_method_def split: if_splits sum.splits)
qed


lemma par_frame:
  "par a parameter val skip_print w = (r, w') \<Longrightarrow> disk w' = disk w"
  by (auto simp: par_def print_out_def split: if_splits sum.splits option.splits list.splits)

lemma config_logging_frame:
  "config_logging PAR PATH w = (r, w') \<Longrightarrow> disk w' = disk w \<and> entries w' = entries w"
  by (auto simp: config_logging_def split: if_splits option.splits)

lemma and_then_Inr:
  "and_then m f = (Inr y, w') \<Longrightarrow> \<exists>x w1. m = (Inr x, w1) \<and> f x w1 = (Inr y, w')"
  by (cases m) (auto simp: and_then_def split: sum.splits)

lemma submit_register_disk:
  assumes "submit_register env a stop_after force w = (Inr h, w4)"
  shows "disk w4 = disk w"
proof -
  from assms obtain u1 w1 where p1: "par a ''resume_from'' (Some []) True w = (Inr u1, w1)"
    and r1: "and_then
            (case stop_after of
               None \<Rightarrow> (Inr (), w1)
             | Some v \<Rightarrow> par a ''STOP_AFTER'' (Some v) True w1)
            (\<lambda>_ w2.
               and_then (register env a force w2)
                 (\<lambda>(PAR, PATH) w3.
                    and_then (config_logging PAR PATH w3)
                      (\<lambda>_ w4. (Inr (PAR, PATH), w4)))) = (Inr h, w4)"
    unfolding submit_register_def by (blast dest: and_then_Inr)
  from r1 obtain u2 w2 where p2: "(case stop_after of
               None \<Rightarrow> (Inr (), w1)
             | Some v \<Rightarrow> par a ''STOP_AFTER'' (Some v) True w1) = (Inr u2, w2)"
    and r2: "and_then (register env a force w2)
                 (\<lambda>(PAR, PATH) w3.
                    and_then (config_logging PAR PATH w3)
                      (\<lambda>_ w4. (Inr (PAR, PATH), w4))) = (Inr h, w4)"
    by (blast dest: and_then_Inr)
  from r2 obtain g w3 where p3: "register env a force w2 = (Inr g, w3)"
    and r3: "(case g of (PAR, PATH) \<Rightarrow> \<lambda>w3.
                    and_then (config_logging PAR PATH w3)
                      (\<lambda>_ w4. (Inr (PAR, PATH), w4))) w3 = (Inr h, w4)"
    by (blast dest: and_then_Inr)
  obtain PAR PATH where g: "g = (PAR, PATH)" by force
  from r3 g obtain u4 where p4: "config_logging PAR PATH w3 = (Inr u4, w4)"
    by (auto dest: and_then_Inr)
  from par_frame[OF p1] have "disk w1 = disk w" .
  moreover from p2 have "disk w2 = disk w1" by (auto split: option.splits dest: par_frame)
  moreover from register_frame[OF p3] have "disk w3 = disk w2" by simp
  moreover from config_logging_frame[OF p4] have "disk w4 = disk w3" by simp
  ultimately show ?thesis by simp
qed

section \<open>Lemmas: the effect of \<^verbatim>\<open>par\<close> on the document\<close>


text \<open>With one entry for a key, the first and the last entry are the same: a loader
  for which the last entry counts reads such a document as one for which the first
  counts.\<close>

lemma find_line_None: "find_line P ls = None \<Longrightarrow> filter P ls = []"
  by (induction ls) (auto split: if_splits)

lemma last_entry_text_unique:
  assumes "entry_count key doc = 1"
  shows "last_entry_text key doc = entry_text key doc"
proof -
  let ?P = "par_match key"
  let ?ls = "readlines doc"
  from assms obtain x where x: "filter ?P ?ls = [x]"
    by (auto simp: entry_count_def length_Suc_conv)
  have only: "y = x" if "y \<in> set ?ls" "?P y" for y
  proof -
    from that have "y \<in> set (filter ?P ?ls)" by simp
    with x show ?thesis by simp
  qed
  from x obtain i where i: "find_line ?P ?ls = Some i"
    by (cases "find_line ?P ?ls") (auto dest: find_line_None)
  from x have "filter ?P (rev ?ls) \<noteq> []" by (simp add: rev_filter[symmetric])
  then obtain j where j: "find_line ?P (rev ?ls) = Some j"
    by (cases "find_line ?P (rev ?ls)") (auto dest: find_line_None)
  from find_line_Some[OF i] only have "?ls ! i = x" by simp
  moreover have "rev ?ls ! j = x"
  proof -
    from find_line_Some[OF j] have "j < length (rev ?ls)" and m: "?P (rev ?ls ! j)" by simp_all
    then have "rev ?ls ! j \<in> set (rev ?ls)" by (simp only: nth_mem)
    then have "rev ?ls ! j \<in> set ?ls" by simp
    with m only show ?thesis by blast
  qed
  ultimately show ?thesis using i j by (simp add: last_entry_text_def entry_text_def)
qed





section \<open>Lemmas: the loops of \<^verbatim>\<open>clean\<close>\<close>

lemma keys_unix_rm: "fst ` set (unix_rm n es) = fst ` set es - {n}"
  by (auto simp: unix_rm_def)

text \<open>The loops only remove entries, and they remove an entry with all entries of its
  name: what is left is the directory filtered by the names that are left.\<close>

lemma clean_matches_keeps:
  "clean_matches wd ns es = (r, es') \<Longrightarrow> es' = filter (\<lambda>e. fst e \<in> fst ` set es') es"
proof (induction ns arbitrary: es)
  case Nil
  then show ?case by (auto simp: filter_id_conv)
next
  case (Cons n ns)
  show ?case
  proof (cases "contains (join_path wd n) ''parameters.yaml'' \<or> islink es n")
    case True
    with Cons.prems have "es' = es" by (auto split: if_splits)
    then show ?thesis by (auto simp: filter_id_conv)
  next
    case False
    with Cons.prems have run: "clean_matches wd ns (unix_rm n es) = (r, es')" by auto
    from Cons.IH[OF run] have 1: "es' = filter (\<lambda>e. fst e \<in> fst ` set es') (unix_rm n es)" .
    then have sub: "fst ` set es' \<subseteq> fst ` set (unix_rm n es)"
      by (metis (no_types, lifting) filter_is_subset image_mono)
    have "filter (\<lambda>e. fst e \<in> fst ` set es') (unix_rm n es)
            = filter (\<lambda>e. fst e \<in> fst ` set es') es"
      unfolding unix_rm_def filter_filter
      by (rule filter_cong) (use sub keys_unix_rm in auto)
    with 1 show ?thesis by simp
  qed
qed

lemma clean_matches_names:
  "clean_matches wd ns es = (r, es') \<Longrightarrow> fst ` set es' \<subseteq> fst ` set es"
  by (drule clean_matches_keeps) (metis (no_types, lifting) filter_is_subset image_mono)

lemma glob_filtered:
  "es' = filter (\<lambda>e. fst e \<in> K) es \<Longrightarrow> glob p es' = filter (\<lambda>n. n \<in> K) (glob p es)"
  by (auto simp: glob_def filter_map comp_def conj_commute)

lemma clean_matches_removed:
  "clean_matches wd ns es = (Inr u, es') \<Longrightarrow> set ns \<inter> fst ` set es' = {}"
proof (induction ns arbitrary: es)
  case Nil
  then show ?case by simp
next
  case (Cons n ns)
  then have run: "clean_matches wd ns (unix_rm n es) = (Inr u, es')"
    by (auto split: if_splits)
  from Cons.IH[OF run] have "set ns \<inter> fst ` set es' = {}" .
  moreover from clean_matches_names[OF run] have "n \<notin> fst ` set es'"
    by (auto simp: keys_unix_rm)
  ultimately show ?case by auto
qed

text \<open>Running the inner loop again, over the matches that are still there, ends the
  same way and removes nothing.\<close>

lemma clean_matches_again:
  assumes "clean_matches wd ns es = (r, es')"
      and "\<forall>n \<in> set ns. n \<in> fst ` set es \<or> \<not> contains (join_path wd n) ''parameters.yaml''"
  shows "clean_matches wd (filter (\<lambda>n. n \<in> fst ` set es') ns) es' = (r, es')"
  using assms
proof (induction ns arbitrary: es)
  case Nil
  then show ?case by simp
next
  case (Cons n ns)
  show ?case
  proof (cases "contains (join_path wd n) ''parameters.yaml'' \<or> islink es n")
    case True
    with Cons.prems(1) have eq: "es' = es" "r = Inl (Raised AssertionError)"
      by (auto split: if_splits)
    from True Cons.prems(2) have "n \<in> fst ` set es"
      by (auto simp: islink_def split: option.splits dest!: map_of_SomeD intro: rev_image_eqI)
    with True eq show ?thesis by auto
  next
    case False
    with Cons.prems have run: "clean_matches wd ns (unix_rm n es) = (r, es')" by auto
    have inv: "\<forall>m \<in> set ns. m \<in> fst ` set (unix_rm n es)
                 \<or> \<not> contains (join_path wd m) ''parameters.yaml''"
      using Cons.prems(2) False by (auto simp: keys_unix_rm)
    from clean_matches_names[OF run] have "n \<notin> fst ` set es'"
      by (auto simp: keys_unix_rm)
    with Cons.IH[OF run inv] show ?thesis by simp
  qed
qed

lemma clean_patterns_keeps:
  "clean_patterns wd ps es = (r, es') \<Longrightarrow> es' = filter (\<lambda>e. fst e \<in> fst ` set es') es"
proof (induction ps arbitrary: es)
  case Nil
  then show ?case by (auto simp: filter_id_conv)
next
  case (Cons p ps)
  obtain r1 es1 where m: "clean_matches wd (glob p es) es = (r1, es1)" by force
  note k1 = clean_matches_keeps[OF m]
  show ?case
  proof (cases r1)
    case (Inl e)
    with m Cons.prems have "es' = es1" by simp
    with k1 show ?thesis by simp
  next
    case (Inr u)
    with m Cons.prems have run: "clean_patterns wd ps es1 = (r, es')" by simp
    from Cons.IH[OF run] have k2: "es' = filter (\<lambda>e. fst e \<in> fst ` set es') es1" .
    then have sub: "fst ` set es' \<subseteq> fst ` set es1"
      by (metis (no_types, lifting) filter_is_subset image_mono)
    have "filter (\<lambda>e. fst e \<in> fst ` set es') es1
            = filter (\<lambda>e. fst e \<in> fst ` set es') (filter (\<lambda>e. fst e \<in> fst ` set es1) es)"
      using k1 by simp
    also have "\<dots> = filter (\<lambda>e. fst e \<in> fst ` set es') es"
      unfolding filter_filter by (rule filter_cong) (use sub in auto)
    finally show ?thesis using k2 by simp
  qed
qed

text \<open>The same for the whole of the two loops: a second run over what the first run
  left ends as the first did and leaves it as it is.\<close>

lemma clean_patterns_again:
  "clean_patterns wd ps es = (r, es') \<Longrightarrow> clean_patterns wd ps es' = (r, es')"
proof (induction ps arbitrary: es)
  case Nil
  then show ?case by simp
next
  case (Cons p ps)
  obtain r1 es1 where m: "clean_matches wd (glob p es) es = (r1, es1)" by force
  note k1 = clean_matches_keeps[OF m]
  have inv: "\<forall>n \<in> set (glob p es). n \<in> fst ` set es
               \<or> \<not> contains (join_path wd n) ''parameters.yaml''"
    by (auto simp: glob_def)
  show ?case
  proof (cases r1)
    case (Inl e)
    with m Cons.prems have eq: "es' = es1" "r = Inl e" by simp_all
    have "glob p es1 = filter (\<lambda>n. n \<in> fst ` set es1) (glob p es)"
      using glob_filtered[OF k1] .
    with clean_matches_again[OF m inv] Inl eq show ?thesis by simp
  next
    case (Inr u)
    with m Cons.prems have run: "clean_patterns wd ps es1 = (r, es')" by simp
    from clean_patterns_keeps[OF run] have k2: "es' = filter (\<lambda>e. fst e \<in> fst ` set es') es1" .
    from clean_matches_removed m Inr have gone: "set (glob p es) \<inter> fst ` set es1 = {}" by blast
    have "set (glob p es') \<subseteq> set (glob p es1)"
      using glob_filtered[OF k2] by auto
    also have "\<dots> \<subseteq> set (glob p es) \<inter> fst ` set es1"
      using glob_filtered[OF k1] by auto
    finally have "glob p es' = []" using gone by auto
    with Cons.IH[OF run] show ?thesis by simp
  qed
qed

text \<open>The loops leave alone every entry whose name matches none of the patterns; the
  name \<^verbatim>\<open>parameters.yaml\<close> is one of them.\<close>

lemma clean_matches_other:
  "clean_matches wd ns es = (r, es') \<Longrightarrow> n \<notin> set ns \<Longrightarrow> map_of es' n = map_of es n"
  by (induction ns arbitrary: es) (auto simp: map_of_unix_rm split: if_splits)

lemma clean_patterns_other:
  "clean_patterns wd ps es = (r, es') \<Longrightarrow> list_all (\<lambda>p. \<not> fnmatch p n) ps
     \<Longrightarrow> map_of es' n = map_of es n"
proof (induction ps arbitrary: es)
  case Nil
  then show ?case by simp
next
  case (Cons p ps)
  obtain r1 es1 where m: "clean_matches wd (glob p es) es = (r1, es1)" by force
  from Cons.prems(2) have "n \<notin> set (glob p es)" by (simp add: glob_def)
  from clean_matches_other[OF m this] have 1: "map_of es1 n = map_of es n" .
  show ?case
  proof (cases r1)
    case (Inl e)
    with m Cons.prems(1) 1 show ?thesis by simp
  next
    case (Inr u)
    with m Cons.prems(1) have "clean_patterns wd ps es1 = (r, es')" by simp
    from Cons.IH[OF this] Cons.prems(2) 1 show ?thesis by simp
  qed
qed

lemma clean_keeps_unmatched:
  assumes "list_all (\<lambda>p. \<not> fnmatch p n) delete"
  shows "map_of (entries (snd (clean a force w))) n = map_of (entries w) n"
proof -
  have keep: "map_of (entries (snd (case clean_patterns (workdir a) delete (entries w0) of
                 (r, es) \<Rightarrow> (r, w0\<lparr>entries := es\<rparr>)))) n = map_of (entries w0) n" for w0
    using clean_patterns_other[OF _ assms, of "workdir a" "entries w0"]
    by (cases "clean_patterns (workdir a) delete (entries w0)") auto
  show ?thesis
  proof (cases force)
    case True
    with keep show ?thesis by (simp add: clean_def and_then_def)
  next
    case False
    obtain r0 w0 where i: "input_line ''Are you sure you want to clean? (y/[n]):'' w = (r0, w0)"
      by force
    from input_line_frame[OF i] have "entries w0 = entries w" by simp
    with False i keep[of w0] show ?thesis
      by (cases r0) (auto simp: clean_def and_then_def)
  qed
qed

lemma clean_keeps_parameters_yaml:
  "map_of (entries (snd (clean a force w))) ''parameters.yaml''
     = map_of (entries w) ''parameters.yaml''"
  by (rule clean_keeps_unmatched) (simp add: delete_def)

section \<open>Theorems about the commands\<close>

text \<open>
  C2, as stated: whatever exception is raised while \<^verbatim>\<open>configure\<close> writes the
  template, the document is restored. It is not for a \<^verbatim>\<open>KeyboardInterrupt\<close>: raised
  after the first write, it passes the handler, the command ends with it, and the
  parameter file keeps what was written so far.
\<close>

theorem configure_interrupt_counterexample:
  "fst (configure
          ((flat_env [] [Write ''# solver'', Raise KeyboardInterrupt])\<lparr>loadyaml := \<lambda>_. Inr []\<rparr>)
          default_args (world_of [(''parameters.yaml'', File ''solver: specfem3d'')] []))
     = Inl (Raised KeyboardInterrupt)
   \<and> read_file (entries (snd (configure
          ((flat_env [] [Write ''# solver'', Raise KeyboardInterrupt])\<lparr>loadyaml := \<lambda>_. Inr []\<rparr>)
          default_args (world_of [(''parameters.yaml'', File ''solver: specfem3d'')] []))))
        ''parameters.yaml''
     = Inr ''solver: specfem3d# solver''
   \<and> read_file (entries (world_of [(''parameters.yaml'', File ''solver: specfem3d'')] []))
        ''parameters.yaml''
     = Inr ''solver: specfem3d''"
  by code_simp

text \<open>
  C2, amended: when the registration and the import of the modules have succeeded
  and the exception that ends the writing of the template (at any place among the
  writes) is of class \<^verbatim>\<open>Exception\<close>, the command exits, and the parameter file
  then reads exactly as it read before the command; its name then has the entry
  its links ended at before, a file with that text. The name of the backup, the
  parameter file's with a dot before it, is taken not to be a symbolic link and not
  to be the file the parameter file's links end at.
\<close>

theorem configure_restores_document:
  assumes "register env a True w = (Inr (PAR, PATH), w1)"
      and "import_modules env PAR PATH = None"
      and "first_raise (render env PAR PATH (relative_paths a)) = Some e"
      and "is_Exception e"
      and "\<not> islink (entries w) (''.'' @ parameter_file a)"
      and "realname (entries w) (parameter_file a) \<noteq> ''.'' @ parameter_file a"
  shows "fst (configure env a w) = Inl (Exit ''seisflows configure failed with exception'')
         \<and> read_file (entries (snd (configure env a w))) (parameter_file a)
             = read_file (entries w) (parameter_file a)
         \<and> map_of (entries (snd (configure env a w))) (parameter_file a)
             = map_of (entries w) (realname (entries w) (parameter_file a))"
proof -
  let ?pf = "parameter_file a"
  let ?tmp = "CHR ''.'' # parameter_file a"
  let ?es = "entries w"
  let ?r = "realname ?es ?pf"
  let ?evs = "render env PAR PATH (relative_paths a)"
  from register_Inr_reads[OF assms(1)] obtain doc
    where yaml: "endswith ?pf ''.yaml''" and rd: "read_file ?es ?pf = Inr doc" by blast
  from register_frame[OF assms(1)] have es1: "entries w1 = ?es" by simp
  from read_file_ends_at[OF rd] have doc: "map_of ?es ?r = Some (File doc)" .
  have ne: "?tmp \<noteq> ?pf" by simp
  from assms(5) have tl: "\<not> islink ?es ?tmp" by simp
  from assms(6) have rt: "?r \<noteq> ?tmp" by simp
  text \<open>the backup is made\<close>
  let ?es2 = "put ?tmp (File doc) ?es"
  have cp1: "unix_cp ?pf ?tmp (entries w1) = ?es2"
    using doc es1 tl by (simp add: unix_cp_def realname_nonlink)
  have r2: "realname ?es2 ?pf = ?r" using tl by (rule realname_put_file)
  have doc2: "map_of ?es2 ?r = Some (File doc)" using doc rt by (simp add: map_of_put)
  text \<open>the body writes and raises\<close>
  from append_writes_first[OF assms(3)] obtain doc'
    where aw: "append_writes ?evs doc = (Some e, doc')" by blast
  let ?es3 = "put ?r (File doc') ?es2"
  have tb: "try_body ?evs ?pf ?es2 = (Some e, ?es3)"
    using doc2 aw by (simp add: try_body_def r2)
  text \<open>the handler removes the file and copies the backup\<close>
  let ?es4 = "unix_rm ?pf ?es3"
  have tmp4: "map_of ?es4 ?tmp = Some (File doc)"
    using ne rt by (simp add: map_of_unix_rm map_of_put)
  then have t4: "realname ?es4 ?tmp = ?tmp" by (simp add: realname_nonlink islink_def)
  have "map_of ?es4 ?pf = None" by (simp add: map_of_unix_rm)
  then have p4: "realname ?es4 ?pf = ?pf" by (simp add: realname_nonlink islink_def)
  let ?es5 = "put ?pf (File doc) ?es4"
  have cp2: "unix_cp ?tmp ?pf ?es4 = ?es5"
    using tmp4 by (simp add: unix_cp_def t4 p4)
  have run: "configure env a w =
               (Inl (Exit ''seisflows configure failed with exception''), w1\<lparr>entries := ?es5\<rparr>)"
    using assms(1,2,4) yaml tb cp1 cp2 by (simp add: configure_def and_then_def)
  have at_pf: "map_of ?es5 ?pf = Some (File doc)" by (simp add: map_of_put)
  then have "realname ?es5 ?pf = ?pf" by (simp add: realname_nonlink islink_def)
  with at_pf have "read_file ?es5 ?pf = Inr doc" by (simp add: read_file_def)
  with at_pf rd doc show ?thesis by (simp add: run)
qed

text \<open>The witness has the parameter file as a symbolic link to a shared document.\<close>

theorem configure_restores_document_witness:
  "fst (configure
          ((flat_env [] [Write ''# solver'', Raise (KeyError ''docstr'')])\<lparr>loadyaml := \<lambda>_. Inr []\<rparr>)
          default_args
          (world_of [(''parameters.yaml'', Link ''shared.yaml''),
                     (''shared.yaml'', File ''solver: specfem3d'')] []))
     = Inl (Exit ''seisflows configure failed with exception'')
   \<and> read_file (entries (snd (configure
          ((flat_env [] [Write ''# solver'', Raise (KeyError ''docstr'')])\<lparr>loadyaml := \<lambda>_. Inr []\<rparr>)
          default_args
          (world_of [(''parameters.yaml'', Link ''shared.yaml''),
                     (''shared.yaml'', File ''solver: specfem3d'')] []))))
        ''parameters.yaml''
     = Inr ''solver: specfem3d''
   \<and> map_of (entries (snd (configure
          ((flat_env [] [Write ''# solver'', Raise (KeyError ''docstr'')])\<lparr>loadyaml := \<lambda>_. Inr []\<rparr>)
          default_args
          (world_of [(''parameters.yaml'', Link ''shared.yaml''),
                     (''shared.yaml'', File ''solver: specfem3d'')] []))))
        ''parameters.yaml''
     = Some (File ''solver: specfem3d'')"
proof -
  let ?env = "(flat_env [] [Write ''# solver'', Raise (KeyError ''docstr'')])\<lparr>loadyaml := \<lambda>_. Inr []\<rparr>"
  let ?w = "world_of [(''parameters.yaml'', Link ''shared.yaml''),
                      (''shared.yaml'', File ''solver: specfem3d'')] []"
  have "fst (register ?env default_args True ?w) = Inr ([], [])" by code_simp
  then have reg: "register ?env default_args True ?w
                    = (Inr ([], []), snd (register ?env default_args True ?w))"
    by (metis prod.collapse)
  have imp: "import_modules ?env [] [] = None" by (simp add: flat_env_def)
  have rai: "first_raise (render ?env [] [] (relative_paths default_args))
               = Some (KeyError ''docstr'')"
    by (simp add: flat_env_def)
  have exc: "is_Exception (KeyError ''docstr'')" by (simp add: is_Exception_def)
  have nolink: "\<not> islink (entries ?w) (''.'' @ parameter_file default_args)" by code_simp
  have other: "realname (entries ?w) (parameter_file default_args)
                 \<noteq> ''.'' @ parameter_file default_args"
    by code_simp
  have rd: "read_file (entries ?w) ''parameters.yaml'' = Inr ''solver: specfem3d''"
    by code_simp
  have at: "map_of (entries ?w) (realname (entries ?w) ''parameters.yaml'')
              = Some (File ''solver: specfem3d'')"
    by code_simp
  have pf: "parameter_file default_args = ''parameters.yaml''" by (simp add: default_args_def)
  note restored = configure_restores_document[OF reg imp rai exc nolink other, unfolded pf]
  from restored rd at show ?thesis by simp
qed

text \<open>In that run the handler puts a file in the place of the link; the document the
  link pointed to keeps the text written before the exception.\<close>

lemma configure_link_target:
  "read_file (entries (snd (configure
          ((flat_env [] [Write ''# solver'', Raise (KeyError ''docstr'')])\<lparr>loadyaml := \<lambda>_. Inr []\<rparr>)
          default_args
          (world_of [(''parameters.yaml'', Link ''shared.yaml''),
                     (''shared.yaml'', File ''solver: specfem3d'')] []))))
        ''shared.yaml''
     = Inr ''solver: specfem3d# solver''"
  by code_simp

text \<open>
  C3, at a concrete input: the working directory holds a parameter file, the command
  is given without the overwrite flag and the operator answers \<^verbatim>\<open>n\<close>. The file is
  not removed, but the template is copied over it all the same: the operator's text
  is gone.
\<close>

theorem setup_declined_still_overwrites:
  "setup_workdir env default_args False False
     (world_of [(''parameters.yaml'', File ''NPROC: 4'')] [''n''])
   = (Inr (),
      \<lparr>entries = [(''parameters.yaml'', File (template_text env))], disk = [], stdin = [],
       stdout = [Text ''Parameter file parameters.yaml already exists'',
                 Text ''Overwrite with blank file? (y/[n]): ''],
       log_files = []\<rparr>)"
  by (simp add: setup_workdir_def and_then_def exists_def input_line_def print_out_def
        cp_template_def put_def default_args_def world_of_def realname_nonlink islink_def)





text \<open>
  C5, as stated: from every state of the working directory the second \<^verbatim>\<open>clean\<close>
  completes without error. It does not where the first does not: when \<^verbatim>\<open>logs\<close>
  is a symbolic link, the first invocation stops at the assertion that guards links,
  and so does the second.
\<close>

theorem clean_twice_counterexample:
  "fst (clean default_args True (world_of [(''logs'', Link ''/scratch/logs'')] []))
     = Inl (Raised AssertionError)
   \<and> fst (clean default_args True
            (snd (clean default_args True (world_of [(''logs'', Link ''/scratch/logs'')] []))))
     = Inl (Raised AssertionError)"
  by (simp add: clean_def and_then_def delete_def glob_def islink_def join_path_def
        default_args_def world_of_def)

text \<open>
  C5, amended: a confirmed \<^verbatim>\<open>clean\<close> that follows a confirmed \<^verbatim>\<open>clean\<close> ends the
  way the first ended and deletes nothing: the working directory stays as the first
  invocation left it. So when the first completes, the second completes without
  error; when the first stops at an assertion, the second stops at it too.
\<close>

theorem clean_again_changes_nothing:
  assumes "confirmed force w" and "clean a force w = (r1, w1)" and "confirmed force w1"
  shows "fst (clean a force w1) = r1 \<and> entries (snd (clean a force w1)) = entries w1"
proof -
  have "\<exists>w0. (if force then (Inr ''y'', w)
        else input_line ''Are you sure you want to clean? (y/[n]):'' w) = (Inr ''y'', w0)"
    using assms(1) by (auto simp: confirmed_def input_line_def split: list.splits)
  then obtain w0 where first: "(if force then (Inr ''y'', w)
        else input_line ''Are you sure you want to clean? (y/[n]):'' w) = (Inr ''y'', w0)"
    by blast
  obtain es where loops: "clean_patterns (workdir a) delete (entries w0) = (r1, es)"
    and w1: "w1 = w0\<lparr>entries := es\<rparr>"
    using assms(2) first by (auto simp: clean_def and_then_def split: prod.splits)
  have "\<exists>w2. (if force then (Inr ''y'', w1)
        else input_line ''Are you sure you want to clean? (y/[n]):'' w1) = (Inr ''y'', w2)
        \<and> entries w2 = entries w1"
    using assms(3) by (auto simp: confirmed_def input_line_def print_out_def split: list.splits)
  then obtain w2 where second: "(if force then (Inr ''y'', w1)
        else input_line ''Are you sure you want to clean? (y/[n]):'' w1) = (Inr ''y'', w2)"
    and same: "entries w2 = entries w1"
    by blast
  from clean_patterns_again[OF loops] same w1
  have "clean_patterns (workdir a) delete (entries w2) = (r1, entries w1)" by simp
  with second show ?thesis by (simp add: clean_def and_then_def)
qed

theorem clean_again_changes_nothing_witness:
  "fst (clean default_args False
          (snd (clean default_args False
                  (world_of [(''output'', Dir), (''parameters.yaml'', File ''NPROC: 4''),
                             (''scratch'', Dir), (''logs'', Dir)] [''y'', ''y'']))))
     = Inr ()
   \<and> entries (snd (clean default_args False
          (snd (clean default_args False
                  (world_of [(''output'', Dir), (''parameters.yaml'', File ''NPROC: 4''),
                             (''scratch'', Dir), (''logs'', Dir)] [''y'', ''y''])))))
     = [(''parameters.yaml'', File ''NPROC: 4'')]"
proof -
  let ?w = "world_of [(''output'', Dir), (''parameters.yaml'', File ''NPROC: 4''),
                      (''scratch'', Dir), (''logs'', Dir)] [''y'', ''y'']"
  let ?w1 = "\<lparr>entries = [(''parameters.yaml'', File ''NPROC: 4'')], disk = [], stdin = [''y''],
              stdout = [Text ''Are you sure you want to clean? (y/[n]):''], log_files = []\<rparr>"
  have c0: "confirmed False ?w" by (simp add: confirmed_def world_of_def)
  have run: "clean default_args False ?w = (Inr (), ?w1)"
    by (simp add: clean_def and_then_def delete_def glob_def islink_def join_path_def
          default_args_def world_of_def input_line_def print_out_def unix_rm_def)
  have c1: "confirmed False ?w1" by (simp add: confirmed_def)
  from clean_again_changes_nothing[OF c0 run c1] show ?thesis by (simp add: run)
qed

text \<open>
  C6, at a concrete input: the parameter file is named \<^verbatim>\<open>output.yaml\<close>
  (\<^verbatim>\<open>seisflows -p output.yaml clean -f\<close>). Its name matches the pattern
  \<^verbatim>\<open>output*\<close> and does not contain \<^verbatim>\<open>parameters.yaml\<close>, so no assertion stops the
  command and the parameter file is deleted with the outputs.
\<close>

theorem clean_deletes_parameter_file:
  "clean (default_args\<lparr>parameter_file := ''output.yaml''\<rparr>) True
     (world_of [(''output.yaml'', File ''NPROC: 4''), (''output'', Dir),
                (''notes.txt'', File ''keep'')] [])
   = (Inr (), world_of [(''notes.txt'', File ''keep'')] [])"
  by (simp add: clean_def and_then_def delete_def glob_def join_path_def islink_def unix_rm_def
        default_args_def world_of_def)

text \<open>
  C7, as stated: from every state \<^verbatim>\<open>restart\<close> ends as \<^verbatim>\<open>clean\<close> followed by
  \<^verbatim>\<open>submit\<close> does. It does not where \<^verbatim>\<open>clean\<close> raises: with \<^verbatim>\<open>logs\<close> a
  symbolic link the assertion of \<^verbatim>\<open>clean\<close> ends \<^verbatim>\<open>restart\<close>, which submits
  nothing, while the two invocations one after the other end with the workflow
  handed off.
\<close>

theorem restart_counterexample:
  "fst (restart (flat_env [] []) default_args True
          (world_of [(''logs'', Link ''/scratch/logs''),
                     (''parameters.yaml'', File (''RESUME_FROM: '' @ [newline]))] []))
     = Inl (Raised AssertionError)
   \<and> fst (clean_then_submit (flat_env [] []) default_args True
          (world_of [(''logs'', Link ''/scratch/logs''),
                     (''parameters.yaml'', File (''RESUME_FROM: '' @ [newline]))] []))
     = Inr ([(''RESUME_FROM'', PNone)], [])"
  by code_simp

text \<open>
  C7, amended: whenever its \<^verbatim>\<open>clean\<close> returns (it has cleaned, or the operator has
  declined), \<^verbatim>\<open>restart\<close> ends in the same state, with the same outcome and the
  same handed-off workflow, as \<^verbatim>\<open>clean\<close> followed by \<^verbatim>\<open>submit\<close> with that force
  flag; when its \<^verbatim>\<open>clean\<close> ends with an exception, \<^verbatim>\<open>restart\<close> ends with that
  exception in the state \<^verbatim>\<open>clean\<close> left and submits nothing.
\<close>

theorem restart_after_clean:
  "restart env a force w =
     (case clean a force w of
        (Inr _, w1) \<Rightarrow> clean_then_submit env a force w
      | (Inl e, w1) \<Rightarrow> (Inl e, w1))"
  by (simp add: restart_def clean_then_submit_def split: prod.splits sum.splits)

theorem restart_after_clean_witness:
  "restart (flat_env [] []) default_args True
     (world_of [(''output'', Dir),
                (''parameters.yaml'', File (''RESUME_FROM: line_search'' @ [newline]))] [])
   = clean_then_submit (flat_env [] []) default_args True
       (world_of [(''output'', Dir),
                  (''parameters.yaml'', File (''RESUME_FROM: line_search'' @ [newline]))] [])
   \<and> fst (restart (flat_env [] []) default_args True
            (world_of [(''output'', Dir),
                       (''parameters.yaml'', File (''RESUME_FROM: line_search'' @ [newline]))] []))
     = Inr ([(''RESUME_FROM'', PNone)], [])"
proof -
  let ?w = "world_of [(''output'', Dir),
                      (''parameters.yaml'', File (''RESUME_FROM: line_search'' @ [newline]))] []"
  have returned: "fst (clean default_args True ?w) = Inr ()" by code_simp
  have "restart (flat_env [] []) default_args True ?w
          = clean_then_submit (flat_env [] []) default_args True ?w"
    using restart_after_clean[of "flat_env [] []" default_args True ?w] returned
    by (cases "clean default_args True ?w") auto
  moreover have "fst (restart (flat_env [] []) default_args True ?w)
                   = Inr ([(''RESUME_FROM'', PNone)], [])"
    by code_simp
  ultimately show ?thesis by (rule conjI)
qed




text \<open>The other way round: when \<^verbatim>\<open>submit\<close> hands the workflow off, none of the
  required paths that are given is missing.\<close>

lemma submit_handoff_paths_exist:
  assumes "submit env a stop_after force w = (Inr (PAR, PATH), w')"
  shows "paths_dont_exist PATH (disk w) REQ_PATHS = []"
proof -
  from assms obtain h w4 where sr: "submit_register env a stop_after force w = (Inr h, w4)"
    unfolding submit_def by (blast dest: and_then_Inr)
  with assms have h: "h = (PAR, PATH)"
    by (cases h) (auto simp: submit_def and_then_def split: if_splits)
  from submit_register_disk[OF sr] have "disk w4 = disk w" .
  with assms sr h show ?thesis
    by (auto simp: submit_def and_then_def split: if_splits)
qed

text \<open>
  C9: when the parameter file exists and its name does not end in \<^verbatim>\<open>.yaml\<close>, the
  registration raises \<^verbatim>\<open>AttributeError\<close> for \<^verbatim>\<open>endwith\<close> and changes nothing,
  whatever the loaders of the environment are: the legacy files are never loaded.
\<close>

theorem register_legacy_raises:
  assumes "exists (entries w) (parameter_file a)"
      and "\<not> endswith (parameter_file a) ''.yaml''"
  shows "register env a force w = (Inl (Raised (AttributeError ''endwith'')), w)"
  using assms by (simp add: register_def load_parameters_def str_method_def)

theorem register_legacy_raises_witness:
  "register (flat_env [] []) (default_args\<lparr>parameter_file := ''parameters.py''\<rparr>) True
     (world_of [(''parameters.py'', File ''NPROC = 4''), (''paths.py'', File ''DATA = None'')] [])
   = (Inl (Raised (AttributeError ''endwith'')),
      world_of [(''parameters.py'', File ''NPROC = 4''), (''paths.py'', File ''DATA = None'')] [])"
proof -
  have ex: "exists (entries (world_of [(''parameters.py'', File ''NPROC = 4''),
                                     (''paths.py'', File ''DATA = None'')] []))
                  (parameter_file (default_args\<lparr>parameter_file := ''parameters.py''\<rparr>))"
    by (simp add: exists_def world_of_def)
  have py: "\<not> endswith (parameter_file (default_args\<lparr>parameter_file := ''parameters.py''\<rparr>)) ''.yaml''"
    by (simp add: endswith_def)
  from register_legacy_raises[OF ex py] show ?thesis .
qed

end
